theory Spec2Isabelle
  imports Main
begin

section \<open>The notes client: state and remote replies\<close>

text \<open>
  The development embeds the state logic of the component \<open>App\<close> of
  \<^verbatim>\<open>notes_frontend/src/App.js\<close>: the six \<open>useState\<close> cells, the four asynchronous
  functions \<open>fetchNotes\<close>, \<open>createNote\<close>, \<open>saveNote\<close>, \<open>deleteNote\<close>, and the two
  \<open>onChange\<close> handlers of the editor.

  A note is the JSON object the server sends. Its \<open>id\<close> is a JavaScript number that
  holds an integer; the field is called \<open>note_id\<close> here because \<open>id\<close> is the identity
  function of HOL.
\<close>

record Note =
  note_id :: int
  title :: string
  content :: string
  created_at :: string
  updated_at :: string

text \<open>
  The state cells of \<open>App\<close>, in the order of their \<open>useState\<close> calls. \<open>null\<close> is
  \<open>None\<close>.
\<close>

record app_state =
  "notes" :: "Note list"
  loadingList :: bool
  loadingSave :: bool
  loadingDelete :: bool
  error :: "string option"
  selectedId :: "int option"

definition initial :: app_state where
  "initial = \<lparr>notes = [], loadingList = False, loadingSave = False,
     loadingDelete = False, error = None, selectedId = None\<rparr>"

text \<open>
  What a remote call can come back with. Inside each \<open>try\<close> block either an
  exception is raised by \<open>fetch\<close> or by \<open>res.json()\<close> (\<open>Threw m\<close>, with \<open>m\<close> the
  exception's \<open>message\<close>), or the reply has \<open>res.ok\<close> false (\<open>NotOk status\<close>, on which
  the code throws an \<open>Error\<close> of its own), or the reply is fine and carries a body.
\<close>

datatype failure = Threw string | NotOk nat

datatype 'a response = Failed failure | Ok 'a

text \<open>
  Decimal rendering of \<open>res.status\<close> inside a template literal; \<open>digit_char\<close> is
  applied to numbers below ten only.
\<close>

definition digit_char :: "nat \<Rightarrow> char" where
  "digit_char d = ''0123456789'' ! d"

fun show_nat :: "nat \<Rightarrow> string" where
  "show_nat n = (if n < 10 then [digit_char n] else show_nat (n div 10) @ [digit_char (n mod 10)])"

declare show_nat.simps [simp del]

text \<open>
  \<open>e.message\<close> in the \<open>catch\<close> block: the message of the exception raised, or the
  text built by \<^verbatim>\<open>new Error(`Failed to <what> (${res.status})`)\<close>.
\<close>

fun message :: "string \<Rightarrow> failure \<Rightarrow> string" where
  "message what (Threw m) = m"
| "message what (NotOk status) = ''Failed to '' @ what @ '' ('' @ show_nat status @ '')''"

text \<open>
  The test \<open>!selectedId\<close>: true of \<open>null\<close> and, the cell holding a number otherwise,
  true of zero as well.
\<close>

fun not_selectedId :: "int option \<Rightarrow> bool" where
  "not_selectedId None = True"
| "not_selectedId (Some i) = (i = 0)"

text \<open>\<open>selectedNote\<close>: \<open>notes.find((n) => n.id === selectedId) || null\<close>.\<close>

fun selectedNote :: "app_state \<Rightarrow> Note option" where
  "selectedNote s =
     (case selectedId s of
        None \<Rightarrow> None
      | Some i \<Rightarrow> find (\<lambda>n. note_id n = i) (notes s))"

section \<open>The operations\<close>

text \<open>
  Each asynchronous function runs in two synchronous stretches: what it does before
  its \<open>await\<close>, and what it does when the reply is there. A function of \<open>App\<close> is a
  closure of one render: where its body reads \<open>selectedId\<close> or \<open>notes\<close> directly it
  reads the values of that render, whereas an updater passed to a setter
  (\<open>setNotes((prev) => ...)\<close>) receives the value the cell has when it runs. The
  argument \<open>r\<close> below is the state of the render the closure belongs to and \<open>s\<close> the
  state the stretch starts from.
\<close>

subsection \<open>fetchNotes\<close>

definition fetchNotes_begin :: "app_state \<Rightarrow> app_state" where
  "fetchNotes_begin s = s\<lparr>loadingList := True\<rparr>"

fun fetchNotes_settle :: "app_state \<Rightarrow> Note list response \<Rightarrow> app_state \<Rightarrow> app_state" where
  "fetchNotes_settle r (Ok data) s =
     (let s1 = s\<lparr>notes := data\<rparr>;
          s2 = (case data of
                  [] \<Rightarrow> s1
                | n # _ \<Rightarrow> if not_selectedId (selectedId r)
                           then s1\<lparr>selectedId := Some (note_id n)\<rparr> else s1)
      in s2\<lparr>error := None, loadingList := False\<rparr>)"
| "fetchNotes_settle r (Failed f) s =
     s\<lparr>error := Some (message ''load notes'' f), loadingList := False\<rparr>"

definition fetchNotes :: "app_state \<Rightarrow> Note list response \<Rightarrow> app_state \<Rightarrow> app_state" where
  "fetchNotes r res s = fetchNotes_settle r res (fetchNotes_begin s)"

text \<open>
  A refresh issued from the current render (the Refresh button, or the effect that
  runs after the first render), run to completion with nothing in between.
\<close>

definition refresh :: "Note list response \<Rightarrow> app_state \<Rightarrow> app_state" where
  "refresh res s = fetchNotes s res s"

subsection \<open>createNote\<close>

text \<open>
  \<open>k\<close> is \<open>Math.floor(Math.random() * 1e9)\<close>, a whole number from 0 up to
  \<open>999999999\<close>; \<open>tempId\<close> is its product with \<open>-1\<close>, which for the draw 0
  is the number that \<open>===\<close> and \<open>!\<close> treat as 0. \<open>t1\<close> and \<open>t2\<close> are the two readings of
  the clock.
\<close>

definition tempId :: "nat \<Rightarrow> int" where
  "tempId k = int k * (- 1)"

definition optimistic :: "nat \<Rightarrow> string \<Rightarrow> string \<Rightarrow> Note" where
  "optimistic k t1 t2 =
     \<lparr>note_id = tempId k, title = ''Untitled'', content = '''',
      created_at = t1, updated_at = t2\<rparr>"

definition createNote_begin :: "nat \<Rightarrow> string \<Rightarrow> string \<Rightarrow> app_state \<Rightarrow> app_state" where
  "createNote_begin k t1 t2 s =
     (let s1 = s\<lparr>loadingSave := True\<rparr>;
          s2 = s1\<lparr>notes := optimistic k t1 t2 # notes s1\<rparr>
      in s2\<lparr>selectedId := Some (tempId k)\<rparr>)"

text \<open>
  When the POST has settled. On failure the \<open>catch\<close> block sets the error and calls
  \<open>fetchNotes()\<close>, which runs up to its own \<open>await\<close>; then \<open>finally\<close> releases the
  flag. The refetch settles later, in \<open>createNote\<close> below.
\<close>

fun createNote_settle :: "nat \<Rightarrow> Note response \<Rightarrow> app_state \<Rightarrow> app_state" where
  "createNote_settle k (Ok created) s =
     (let s1 = s\<lparr>notes := created # filter (\<lambda>n. note_id n \<noteq> tempId k) (notes s)\<rparr>;
          s2 = s1\<lparr>selectedId := Some (note_id created)\<rparr>;
          s3 = s2\<lparr>error := None\<rparr>
      in s3\<lparr>loadingSave := False\<rparr>)"
| "createNote_settle k (Failed f) s =
     (let s1 = s\<lparr>error := Some (message ''create note'' f)\<rparr>;
          s2 = fetchNotes_begin s1
      in s2\<lparr>loadingSave := False\<rparr>)"

text \<open>
  The whole of \<open>createNote\<close>, run to completion from the render \<open>r\<close>: \<open>res\<close> is the
  reply to the POST and \<open>res2\<close> the reply to the GET of the refetch, which is only
  issued when the POST failed. The \<open>fetchNotes\<close> called in the \<open>catch\<close> block is the
  one of the render \<open>createNote\<close> itself belongs to.
\<close>

fun createNote ::
  "app_state \<Rightarrow> nat \<Rightarrow> string \<Rightarrow> string \<Rightarrow> Note response \<Rightarrow> Note list response \<Rightarrow> app_state \<Rightarrow> app_state" where
  "createNote r k t1 t2 (Ok created) res2 s =
     createNote_settle k (Ok created) (createNote_begin k t1 t2 s)"
| "createNote r k t1 t2 (Failed f) res2 s =
     fetchNotes_settle r res2 (createNote_settle k (Failed f) (createNote_begin k t1 t2 s))"

text \<open>
  A create issued from the current render (the New button), run to completion with
  nothing in between.
\<close>

definition create ::
  "nat \<Rightarrow> string \<Rightarrow> string \<Rightarrow> Note response \<Rightarrow> Note list response \<Rightarrow> app_state \<Rightarrow> app_state" where
  "create k t1 t2 res res2 s = createNote s k t1 t2 res res2 s"

subsection \<open>saveNote\<close>

text \<open>
  \<open>updated\<close> only shapes the request (its \<open>id\<close> in the URL, its \<open>title\<close> and
  \<open>content\<close> in the body); the state is updated from the reply alone.
\<close>

fun saveNote :: "Note \<Rightarrow> Note response \<Rightarrow> app_state \<Rightarrow> app_state" where
  "saveNote updated (Ok saved) s =
     (let s1 = s\<lparr>loadingSave := True\<rparr>;
          s2 = s1\<lparr>notes := map (\<lambda>n. if note_id n = note_id saved then saved else n) (notes s1)\<rparr>;
          s3 = s2\<lparr>error := None\<rparr>
      in s3\<lparr>loadingSave := False\<rparr>)"
| "saveNote updated (Failed f) s =
     (let s1 = s\<lparr>loadingSave := True\<rparr>;
          s2 = s1\<lparr>error := Some (message ''save note'' f)\<rparr>
      in s2\<lparr>loadingSave := False\<rparr>)"

subsection \<open>deleteNote\<close>

text \<open>
  The test \<open>selectedId === id\<close> and the list \<open>remaining\<close> read the render's
  \<open>selectedId\<close> and \<open>notes\<close>; the updater of \<open>setNotes\<close> filters the current list.
  The DELETE reply has no body that is read.
\<close>

fun deleteNote :: "app_state \<Rightarrow> int \<Rightarrow> unit response \<Rightarrow> app_state \<Rightarrow> app_state" where
  "deleteNote r i (Ok u) s =
     (let s1 = s\<lparr>loadingDelete := True\<rparr>;
          s2 = s1\<lparr>notes := filter (\<lambda>n. note_id n \<noteq> i) (notes s1)\<rparr>;
          s3 = (if selectedId r = Some i
                then s2\<lparr>selectedId :=
                       (case filter (\<lambda>n. note_id n \<noteq> i) (notes r) of
                          [] \<Rightarrow> None
                        | n # _ \<Rightarrow> Some (note_id n))\<rparr>
                else s2);
          s4 = s3\<lparr>error := None\<rparr>
      in s4\<lparr>loadingDelete := False\<rparr>)"
| "deleteNote r i (Failed f) s =
     (let s1 = s\<lparr>loadingDelete := True\<rparr>;
          s2 = s1\<lparr>error := Some (message ''delete note'' f)\<rparr>
      in s2\<lparr>loadingDelete := False\<rparr>)"

text \<open>
  A delete issued from the current render (the Delete button, which passes
  \<open>selectedNote.id\<close>), run to completion with nothing in between.
\<close>

definition delete :: "int \<Rightarrow> unit response \<Rightarrow> app_state \<Rightarrow> app_state" where
  "delete i res s = deleteNote s i res s"

subsection \<open>The editor's handlers\<close>

text \<open>
  The \<open>onChange\<close> handlers of the title input and of the text area; \<open>i\<close> is
  \<open>selectedNote.id\<close> of the render that shows the editor and \<open>v\<close> the text typed.
\<close>

definition editTitle :: "int \<Rightarrow> string \<Rightarrow> app_state \<Rightarrow> app_state" where
  "editTitle i v s =
     s\<lparr>notes := map (\<lambda>n. if note_id n = i then n\<lparr>title := v\<rparr> else n) (notes s)\<rparr>"

definition editContent :: "int \<Rightarrow> string \<Rightarrow> app_state \<Rightarrow> app_state" where
  "editContent i v s =
     s\<lparr>notes := map (\<lambda>n. if note_id n = i then n\<lparr>content := v\<rparr> else n) (notes s)\<rparr>"

subsection \<open>The rows of the list\<close>

text \<open>The \<open>onClick\<close> handler of a row of the list: \<open>setSelectedId(n.id)\<close>.\<close>

definition selectRow :: "int \<Rightarrow> app_state \<Rightarrow> app_state" where
  "selectRow i s = s\<lparr>selectedId := Some i\<rparr>"

section \<open>The two invariants of the spec\<close>

definition ids :: "app_state \<Rightarrow> int list" where
  "ids s = map note_id (notes s)"

text \<open>
  The selection, when there is one, names a note of the collection: \<open>within sel js\<close>
  says that the selection \<open>sel\<close> is none or one of the ids \<open>js\<close>.
\<close>

fun within :: "int option \<Rightarrow> int list \<Rightarrow> bool" where
  "within None js = True"
| "within (Some i) js = (i \<in> set js)"

definition selection_valid :: "app_state \<Rightarrow> bool" where
  "selection_valid s = within (selectedId s) (ids s)"

text \<open>No two notes of the collection share an id.\<close>

definition ids_distinct :: "app_state \<Rightarrow> bool" where
  "ids_distinct s = distinct (ids s)"

subsection \<open>Concrete states for the examples\<close>

text \<open>
  \<open>mk i t\<close> is a note with id \<open>i\<close> and title \<open>t\<close>; \<open>st ns sel\<close> is the idle state
  showing the notes \<open>ns\<close> with the selection \<open>sel\<close>.
\<close>

definition mk :: "int \<Rightarrow> string \<Rightarrow> Note" where
  "mk i t = \<lparr>note_id = i, title = t, content = '''', created_at = '''', updated_at = ''''\<rparr>"

definition st :: "Note list \<Rightarrow> int option \<Rightarrow> app_state" where
  "st ns sel = initial\<lparr>notes := ns, selectedId := sel\<rparr>"

section \<open>What each operation does to the cells\<close>

lemmas ops = create_def createNote_begin_def fetchNotes_begin_def refresh_def fetchNotes_def
  delete_def editTitle_def editContent_def Let_def

lemma map_id_replace:
  "map note_id (map (\<lambda>n. if note_id n = note_id x then x else n) ns) = map note_id ns"
  by (induction ns) auto

lemma map_id_title:
  "map note_id (map (\<lambda>n. if note_id n = i then n\<lparr>title := v\<rparr> else n) ns) = map note_id ns"
  by (induction ns) auto

lemma map_id_content:
  "map note_id (map (\<lambda>n. if note_id n = i then n\<lparr>content := v\<rparr> else n) ns) = map note_id ns"
  by (induction ns) auto

lemma filter_id_absent:
  "j \<notin> set (map note_id ns) \<Longrightarrow> filter (\<lambda>n. note_id n \<noteq> j) ns = ns"
  by (induction ns) auto

lemma filter_eq_absent:
  "j \<notin> note_id ` set ns \<Longrightarrow> filter (\<lambda>n. Q n \<and> note_id n = j) ns = []"
  by (induction ns) auto

lemma distinct_filter_ids:
  "distinct (map note_id ns) \<Longrightarrow> distinct (map note_id (filter P ns))"
  by (simp add: distinct_map_filter)

lemma within_filter:
  "within sel js \<Longrightarrow> sel \<noteq> Some i \<Longrightarrow> within sel (filter (\<lambda>j. j \<noteq> i) js)"
  by (cases sel) auto

text \<open>The view shows no selected note when the selection names no note.\<close>

lemma selectedNote_dangling:
  "selectedId s = Some i \<Longrightarrow> i \<notin> set (ids s) \<Longrightarrow> selectedNote s = None"
  by (auto simp: ids_def find_None_iff)

subsection \<open>fetchNotes\<close>

lemma notes_refresh_Ok: "notes (refresh (Ok data) s) = data"
  by (cases data) (simp_all add: ops)

lemma selectedId_refresh_Ok:
  "selectedId (refresh (Ok data) s) =
     (case data of
        [] \<Rightarrow> selectedId s
      | n # _ \<Rightarrow> if not_selectedId (selectedId s) then Some (note_id n) else selectedId s)"
  by (cases data) (simp_all add: ops)

lemma error_refresh_Ok: "error (refresh (Ok data) s) = None"
  by (cases data) (simp_all add: ops)

lemma refresh_Failed:
  "refresh (Failed f) s = s\<lparr>error := Some (message ''load notes'' f), loadingList := False\<rparr>"
  by (simp add: ops)

subsection \<open>createNote\<close>

lemma notes_create_Ok:
  "notes (create k t1 t2 (Ok created) res2 s) =
     created # filter (\<lambda>n. note_id n \<noteq> tempId k) (notes s)"
  by (simp add: ops optimistic_def)

lemma selectedId_create_Ok:
  "selectedId (create k t1 t2 (Ok created) res2 s) = Some (note_id created)"
  by (simp add: ops)

lemma notes_create_Failed_Ok: "notes (create k t1 t2 (Failed f) (Ok data) s) = data"
  by (cases data) (simp_all add: ops)

lemma notes_create_Failed_Failed:
  "notes (create k t1 t2 (Failed f) (Failed g) s) = optimistic k t1 t2 # notes s"
  by (simp add: ops)

lemma selectedId_create_Failed_Ok:
  "selectedId (create k t1 t2 (Failed f) (Ok data) s) =
     (case data of
        [] \<Rightarrow> Some (tempId k)
      | n # _ \<Rightarrow> if not_selectedId (selectedId s) then Some (note_id n) else Some (tempId k))"
  by (cases data) (simp_all add: ops)

lemma error_create:
  "error (create k t1 t2 (Ok created) res2 s) = None"
  "error (create k t1 t2 (Failed f) (Ok data) s) = None"
  "error (create k t1 t2 (Failed f) (Failed g) s) = Some (message ''load notes'' g)"
  by (cases data; simp add: ops)+

subsection \<open>saveNote\<close>

lemma error_saveNote:
  "error (saveNote updated (Ok saved) s) = None"
  "error (saveNote updated (Failed f) s) = Some (message ''save note'' f)"
  by (simp_all add: Let_def)

lemma ids_saveNote: "ids (saveNote updated res s) = ids s"
  by (cases res) (simp_all add: ids_def Let_def map_id_replace)

lemma selectedId_saveNote: "selectedId (saveNote updated res s) = selectedId s"
  by (cases res) (simp_all add: Let_def)

subsection \<open>deleteNote\<close>

lemma notes_delete_Ok: "notes (delete i (Ok u) s) = filter (\<lambda>n. note_id n \<noteq> i) (notes s)"
  by (simp add: delete_def Let_def)

lemma ids_delete_Ok: "ids (delete i (Ok u) s) = filter (\<lambda>j. j \<noteq> i) (ids s)"
  by (simp add: ids_def notes_delete_Ok filter_map comp_def)

lemma selectedId_delete_Ok:
  "selectedId (delete i (Ok u) s) =
     (if selectedId s = Some i
      then (case filter (\<lambda>n. note_id n \<noteq> i) (notes s) of
              [] \<Rightarrow> None
            | n # _ \<Rightarrow> Some (note_id n))
      else selectedId s)"
  by (simp add: delete_def Let_def)

lemma delete_Failed:
  "delete i (Failed f) s = s\<lparr>error := Some (message ''delete note'' f), loadingDelete := False\<rparr>"
  by (simp add: delete_def)

lemma error_delete:
  "error (delete i (Ok u) s) = None"
  "error (delete i (Failed f) s) = Some (message ''delete note'' f)"
  by (simp_all add: delete_def Let_def)

lemma selection_valid_deleteNote_Ok:
  assumes "selection_valid s" and "notes s = notes r" and "selectedId s = selectedId r"
  shows "selection_valid (deleteNote r i (Ok u) s)"
proof (cases "selectedId r = Some i")
  case True
  show ?thesis
  proof (cases "filter (\<lambda>n. note_id n \<noteq> i) (notes r)")
    case Nil
    with True show ?thesis by (simp add: selection_valid_def Let_def)
  next
    case (Cons n rest)
    with True assms(2) show ?thesis
      by (simp add: selection_valid_def ids_def Let_def)
  qed
next
  case False
  with assms have "within (selectedId s) (filter (\<lambda>j. j \<noteq> i) (ids s))"
    by (simp add: selection_valid_def within_filter)
  with False show ?thesis
    by (simp add: selection_valid_def ids_def Let_def filter_map comp_def)
qed

subsection \<open>The editor's handlers\<close>

lemma ids_editTitle: "ids (editTitle i v s) = ids s"
  by (simp add: ids_def editTitle_def map_id_title)

lemma ids_editContent: "ids (editContent i v s) = ids s"
  by (simp add: ids_def editContent_def map_id_content)

section \<open>Failed saves and deletes\<close>

text \<open>
  Claim C6. When the remote call of \<open>saveNote\<close> or of \<open>deleteNote\<close> fails, the
  collection is left exactly as it was: no note is removed and the note being saved
  keeps the title and content typed into it, also when the failure follows an edit.
  The only cell that takes a new value is the error, which holds the failure's message;
  the busy flag of the operation is back to false, as it is whenever its button can be
  pressed.
\<close>

theorem save_delete_failure_frame:
  "saveNote updated (Failed f) s =
     s\<lparr>error := Some (message ''save note'' f), loadingSave := False\<rparr>
   \<and> delete i (Failed g) s =
     s\<lparr>error := Some (message ''delete note'' g), loadingDelete := False\<rparr>
   \<and> notes (saveNote updated (Failed f) s) = notes s
   \<and> notes (delete i (Failed g) s) = notes s
   \<and> notes (saveNote updated (Failed f) (editTitle i v s)) = notes (editTitle i v s)
   \<and> notes (saveNote updated (Failed f) (editContent i v s)) = notes (editContent i v s)"
  by (simp add: delete_Failed)

section \<open>Selection after a delete\<close>

text \<open>
  When nothing happens between the click on Delete and the reply, a successful
  \<open>deleteNote(id)\<close> leaves the former collection without the notes of that id; if
  \<open>id\<close> was the selected note the selection is the id of the first note that
  remains, and none if no note remains.
\<close>

lemma delete_uninterrupted:
  "notes (delete i (Ok u) s) = filter (\<lambda>n. note_id n \<noteq> i) (notes s)
   \<and> (selectedId s = Some i \<longrightarrow>
        selectedId (delete i (Ok u) s) =
          (case notes (delete i (Ok u) s) of [] \<Rightarrow> None | n # _ \<Rightarrow> Some (note_id n)))
   \<and> (selectedId s \<noteq> Some i \<longrightarrow> selectedId (delete i (Ok u) s) = selectedId s)"
  by (simp add: notes_delete_Ok selectedId_delete_Ok)

text \<open>
  Scenario A of the spec (notes 1 and 2, 2 selected and deleted) and the deletion of
  the only note.
\<close>

lemma delete_uninterrupted_examples:
  "notes (delete 2 (Ok ()) (st [mk 1 ''a'', mk 2 ''b''] (Some 2))) = [mk 1 ''a'']
   \<and> selectedId (delete 2 (Ok ()) (st [mk 1 ''a'', mk 2 ''b''] (Some 2))) = Some 1
   \<and> notes (delete 2 (Ok ()) (st [mk 2 ''b''] (Some 2))) = []
   \<and> selectedId (delete 2 (Ok ()) (st [mk 2 ''b''] (Some 2))) = None"
  by (simp add: notes_delete_Ok selectedId_delete_Ok st_def mk_def)

text \<open>
  Claim C7, at the inputs where the code departs from it. \<open>deleteNote\<close> decides
  whether to move the selection, and where to, from the \<open>selectedId\<close> and the \<open>notes\<close>
  of the render in which Delete was clicked, not from the cells as they are when the
  reply arrives.

  First input: notes 1 and 2 are shown, 2 is selected and Delete is clicked. While the
  DELETE is in flight a refresh fetches the notes 9, 1 and 2; note 2 is still selected.
  When the DELETE succeeds the notes that remain are 9 and 1, and the selection is 1,
  which is not the first of them.

  Second input: notes 1, 2 and 3 are shown, 2 is selected and Delete is clicked. While
  the DELETE is in flight the row of note 3 is clicked, so that 2 is no longer the
  selected note. When the DELETE succeeds the selection moves from 3 to 1.
\<close>

theorem delete_stale_selection:
  "notes (refresh (Ok [mk 9 ''n'', mk 1 ''a'', mk 2 ''b''])
            (st [mk 1 ''a'', mk 2 ''b''] (Some 2)\<lparr>loadingDelete := True\<rparr>))
     = [mk 9 ''n'', mk 1 ''a'', mk 2 ''b'']
   \<and> selectedId (refresh (Ok [mk 9 ''n'', mk 1 ''a'', mk 2 ''b''])
            (st [mk 1 ''a'', mk 2 ''b''] (Some 2)\<lparr>loadingDelete := True\<rparr>))
     = Some 2
   \<and> notes (deleteNote (st [mk 1 ''a'', mk 2 ''b''] (Some 2)) 2 (Ok ())
        (refresh (Ok [mk 9 ''n'', mk 1 ''a'', mk 2 ''b''])
            (st [mk 1 ''a'', mk 2 ''b''] (Some 2)\<lparr>loadingDelete := True\<rparr>)))
     = [mk 9 ''n'', mk 1 ''a'']
   \<and> selectedId (deleteNote (st [mk 1 ''a'', mk 2 ''b''] (Some 2)) 2 (Ok ())
        (refresh (Ok [mk 9 ''n'', mk 1 ''a'', mk 2 ''b''])
            (st [mk 1 ''a'', mk 2 ''b''] (Some 2)\<lparr>loadingDelete := True\<rparr>)))
     = Some 1
   \<and> selectedId (selectRow 3 (st [mk 1 ''a'', mk 2 ''b'', mk 3 ''c''] (Some 2)\<lparr>loadingDelete := True\<rparr>))
     = Some 3
   \<and> notes (deleteNote (st [mk 1 ''a'', mk 2 ''b'', mk 3 ''c''] (Some 2)) 2 (Ok ())
        (selectRow 3 (st [mk 1 ''a'', mk 2 ''b'', mk 3 ''c''] (Some 2)\<lparr>loadingDelete := True\<rparr>)))
     = [mk 1 ''a'', mk 3 ''c'']
   \<and> selectedId (deleteNote (st [mk 1 ''a'', mk 2 ''b'', mk 3 ''c''] (Some 2)) 2 (Ok ())
        (selectRow 3 (st [mk 1 ''a'', mk 2 ''b'', mk 3 ''c''] (Some 2)\<lparr>loadingDelete := True\<rparr>)))
     = Some 1"
  by (simp add: notes_refresh_Ok selectedId_refresh_Ok selectRow_def st_def mk_def Let_def)

section \<open>Edits\<close>

text \<open>
  Claim C9. Editing the title or the content of the note with a given id leaves the
  collection with the same length and the same ids in the same order; every note of a
  different id is the very same value at the same position, and a note of that id
  differs in the edited field only. No other cell (error, busy flags, selection) is
  written, and no reply of the server enters the result: the handlers are functions of
  the state and the text typed alone.
\<close>

theorem edit_frame:
  "length (notes (editTitle i v s)) = length (notes s)
   \<and> ids (editTitle i v s) = ids s
   \<and> (\<forall>p < length (notes s).
         notes (editTitle i v s) ! p =
           (if note_id (notes s ! p) = i then (notes s ! p)\<lparr>title := v\<rparr> else notes s ! p))
   \<and> (\<forall>n \<in> set (notes s). note_id n \<noteq> i \<longrightarrow> n \<in> set (notes (editTitle i v s)))
   \<and> editTitle i v s = s\<lparr>notes := notes (editTitle i v s)\<rparr>
   \<and> length (notes (editContent i v s)) = length (notes s)
   \<and> ids (editContent i v s) = ids s
   \<and> (\<forall>p < length (notes s).
         notes (editContent i v s) ! p =
           (if note_id (notes s ! p) = i then (notes s ! p)\<lparr>content := v\<rparr> else notes s ! p))
   \<and> (\<forall>n \<in> set (notes s). note_id n \<noteq> i \<longrightarrow> n \<in> set (notes (editContent i v s)))
   \<and> editContent i v s = s\<lparr>notes := notes (editContent i v s)\<rparr>"
proof -
  have t: "\<forall>n \<in> set (notes s). note_id n \<noteq> i \<longrightarrow> n \<in> set (notes (editTitle i v s))"
    by (force simp: editTitle_def)
  have c: "\<forall>n \<in> set (notes s). note_id n \<noteq> i \<longrightarrow> n \<in> set (notes (editContent i v s))"
    by (force simp: editContent_def)
  have l: "length (notes (editTitle i v s)) = length (notes s)"
    "length (notes (editContent i v s)) = length (notes s)"
    by (simp_all add: editTitle_def editContent_def)
  have p: "\<forall>p < length (notes s).
         notes (editTitle i v s) ! p =
           (if note_id (notes s ! p) = i then (notes s ! p)\<lparr>title := v\<rparr> else notes s ! p)"
    "\<forall>p < length (notes s).
         notes (editContent i v s) ! p =
           (if note_id (notes s ! p) = i then (notes s ! p)\<lparr>content := v\<rparr> else notes s ! p)"
    by (simp_all add: editTitle_def editContent_def)
  have e: "editTitle i v s = s\<lparr>notes := notes (editTitle i v s)\<rparr>"
    "editContent i v s = s\<lparr>notes := notes (editContent i v s)\<rparr>"
    by (simp_all add: editTitle_def editContent_def)
  from t c l p e show ?thesis
    by (simp only: ids_editTitle ids_editContent simp_thms)
qed

text \<open>
  With notes 1 and 2 and an error on display, retitling note 1 leaves note 2 where it
  was, and the error too.
\<close>

theorem edit_frame_witness:
  "(1::nat) < length (notes (st [mk 1 ''a'', mk 2 ''b''] (Some 1)\<lparr>error := Some ''e''\<rparr>))
   \<and> mk 2 ''b'' \<in> set (notes (st [mk 1 ''a'', mk 2 ''b''] (Some 1)\<lparr>error := Some ''e''\<rparr>))
   \<and> note_id (mk 2 ''b'') \<noteq> 1
   \<and> notes (editTitle 1 ''x'' (st [mk 1 ''a'', mk 2 ''b''] (Some 1)\<lparr>error := Some ''e''\<rparr>)) ! 1
       = mk 2 ''b''
   \<and> notes (editTitle 1 ''x'' (st [mk 1 ''a'', mk 2 ''b''] (Some 1)\<lparr>error := Some ''e''\<rparr>)) ! 0
       = mk 1 ''x''
   \<and> mk 2 ''b'' \<in> set (notes (editTitle 1 ''x'' (st [mk 1 ''a'', mk 2 ''b''] (Some 1)\<lparr>error := Some ''e''\<rparr>)))
   \<and> error (editTitle 1 ''x'' (st [mk 1 ''a'', mk 2 ''b''] (Some 1)\<lparr>error := Some ''e''\<rparr>))
       = Some ''e''"
proof -
  let ?s = "st [mk 1 ''a'', mk 2 ''b''] (Some 1)\<lparr>error := Some ''e''\<rparr>"
  have n: "notes ?s = [mk 1 ''a'', mk 2 ''b'']" "error ?s = Some ''e''"
    by (simp_all add: st_def)
  have m: "note_id (mk 2 ''b'') \<noteq> 1" "note_id (mk 1 ''a'') = 1"
    "(mk 1 ''a'')\<lparr>title := ''x''\<rparr> = mk 1 ''x''"
    by (simp_all add: mk_def)
  note f = edit_frame [where i = 1 and v = "''x''" and s = ?s]
  from f have a: "notes (editTitle 1 ''x'' ?s) ! 1 = mk 2 ''b''"
    using n m by simp
  from f have b: "notes (editTitle 1 ''x'' ?s) ! 0 = mk 1 ''x''"
    using n m by simp
  from f have c: "mk 2 ''b'' \<in> set (notes (editTitle 1 ''x'' ?s))"
    using n m by simp
  from f have "editTitle 1 ''x'' ?s = ?s\<lparr>notes := notes (editTitle 1 ''x'' ?s)\<rparr>"
    by blast
  then have "error (editTitle 1 ''x'' ?s) = error (?s\<lparr>notes := notes (editTitle 1 ''x'' ?s)\<rparr>)"
    by simp
  then have d: "error (editTitle 1 ''x'' ?s) = Some ''e''"
    using n by simp
  from n m a b c d show ?thesis by simp
qed

section \<open>A failed create whose refetch fails too\<close>

text \<open>
  Claim C10. The failure path of \<open>createNote\<close> does not remove the pending note: when
  the POST has failed the collection is untouched and only the refetch is started. If
  that refetch fails as well, the pending note is still in the collection, at its head,
  and still selected, and the error on display is the message of the failed refetch,
  which has overwritten the message of the failed create.
\<close>

theorem create_failure_refetch_failure:
  "notes (createNote_settle k (Failed f) s1) = notes s1
   \<and> create k t1 t2 (Failed f) (Failed g) s =
       s\<lparr>notes := optimistic k t1 t2 # notes s, selectedId := Some (tempId k),
         error := Some (message ''load notes'' g), loadingSave := False, loadingList := False\<rparr>
   \<and> optimistic k t1 t2 \<in> set (notes (create k t1 t2 (Failed f) (Failed g) s))
   \<and> selectedId (create k t1 t2 (Failed f) (Failed g) s) = Some (note_id (optimistic k t1 t2))
   \<and> error (createNote_settle k (Failed f) (createNote_begin k t1 t2 s))
       = Some (message ''create note'' f)
   \<and> error (create k t1 t2 (Failed f) (Failed g) s) = Some (message ''load notes'' g)"
  by (simp add: ops optimistic_def)

section \<open>The selection names a note of the collection\<close>

text \<open>
  Claim C1, as amended. The code never checks the selection against the collection;
  the view reads it through \<open>selectedNote\<close>, which is none for an id that no note
  has. So the invariant (the selection, if any, is the id of a note present) is not
  restored by every operation. From a state where it holds, it holds again after the
  optimistic insertion of \<open>createNote\<close> and after its success path, whatever the render
  that issued the create and whatever state the reply arrives in (both steps select a
  note they have just put at the head); after \<open>saveNote\<close>, whatever the reply; after
  both edit handlers; after a failed refresh and after a failed delete. After a
  successful refresh it holds when the selection in the state the reply arrives in is
  none or is the id of one of the fetched notes. After a successful delete it holds
  when the notes and the selection in the state the reply arrives in are those of the
  render that issued the delete.
\<close>

theorem selection_valid_preserved:
  assumes "selection_valid s"
  shows "selection_valid (fetchNotes r (Failed f) s)
    \<and> (within (selectedId s) (map note_id data) \<longrightarrow> selection_valid (fetchNotes r (Ok data) s))
    \<and> selection_valid (createNote_begin k t1 t2 s)
    \<and> selection_valid (createNote_settle k (Ok created) s')
    \<and> selection_valid (createNote r k t1 t2 (Ok created) res2 s)
    \<and> selection_valid (saveNote updated res s)
    \<and> selection_valid (deleteNote r i (Failed g) s)
    \<and> (notes s = notes r \<and> selectedId s = selectedId r \<longrightarrow>
         selection_valid (deleteNote r i (Ok u) s))
    \<and> selection_valid (editTitle j v s)
    \<and> selection_valid (editContent j v s)"
proof -
  have a: "selection_valid (fetchNotes r (Failed f) s)"
    using assms by (simp add: selection_valid_def fetchNotes_def fetchNotes_begin_def ids_def)
  have b: "within (selectedId s) (map note_id data) \<longrightarrow> selection_valid (fetchNotes r (Ok data) s)"
    by (cases data; cases "selectedId s")
      (auto simp: selection_valid_def ids_def fetchNotes_def fetchNotes_begin_def Let_def)
  have c: "selection_valid (createNote_begin k t1 t2 s)"
    by (simp add: selection_valid_def createNote_begin_def ids_def optimistic_def)
  have d: "selection_valid (createNote_settle k (Ok created) s')"
    by (simp add: selection_valid_def ids_def Let_def)
  have d': "selection_valid (createNote r k t1 t2 (Ok created) res2 s)"
    by (simp add: selection_valid_def ids_def Let_def)
  have e: "selection_valid (saveNote updated res s)"
    using assms by (simp add: selection_valid_def ids_saveNote selectedId_saveNote)
  have g: "selection_valid (deleteNote r i (Failed g) s)"
    using assms by (simp add: selection_valid_def ids_def)
  have g': "notes s = notes r \<and> selectedId s = selectedId r \<longrightarrow>
         selection_valid (deleteNote r i (Ok u) s)"
    using assms selection_valid_deleteNote_Ok [of s r i u] by blast
  have h: "selection_valid (editTitle j v s)"
    using assms by (simp add: selection_valid_def ids_editTitle) (simp add: editTitle_def)
  have k: "selection_valid (editContent j v s)"
    using assms by (simp add: selection_valid_def ids_editContent) (simp add: editContent_def)
  from a b c d d' e g g' h k show ?thesis by blast
qed

text \<open>
  Notes 1 and 2 are shown with 2 selected, and Delete is clicked. A refresh fetches the
  notes 3 and 2; or the DELETE succeeds, with its flag set and nothing else changed
  since the click.
\<close>

theorem selection_valid_preserved_witness:
  "selection_valid (st [mk 1 ''a'', mk 2 ''b''] (Some 2)\<lparr>loadingDelete := True\<rparr>)
   \<and> within (selectedId (st [mk 1 ''a'', mk 2 ''b''] (Some 2)\<lparr>loadingDelete := True\<rparr>))
        (map note_id [mk 3 ''c'', mk 2 ''b''])
   \<and> notes (st [mk 1 ''a'', mk 2 ''b''] (Some 2)\<lparr>loadingDelete := True\<rparr>)
        = notes (st [mk 1 ''a'', mk 2 ''b''] (Some 2))
   \<and> selectedId (st [mk 1 ''a'', mk 2 ''b''] (Some 2)\<lparr>loadingDelete := True\<rparr>)
        = selectedId (st [mk 1 ''a'', mk 2 ''b''] (Some 2))
   \<and> selection_valid (fetchNotes (st [mk 1 ''a'', mk 2 ''b''] (Some 2)) (Ok [mk 3 ''c'', mk 2 ''b''])
        (st [mk 1 ''a'', mk 2 ''b''] (Some 2)\<lparr>loadingDelete := True\<rparr>))
   \<and> selection_valid (deleteNote (st [mk 1 ''a'', mk 2 ''b''] (Some 2)) 2 (Ok ())
        (st [mk 1 ''a'', mk 2 ''b''] (Some 2)\<lparr>loadingDelete := True\<rparr>))
   \<and> selectedId (deleteNote (st [mk 1 ''a'', mk 2 ''b''] (Some 2)) 2 (Ok ())
        (st [mk 1 ''a'', mk 2 ''b''] (Some 2)\<lparr>loadingDelete := True\<rparr>)) = Some 1"
proof -
  let ?r = "st [mk 1 ''a'', mk 2 ''b''] (Some 2)"
  let ?s = "?r\<lparr>loadingDelete := True\<rparr>"
  have v: "selection_valid ?s"
    by (simp add: selection_valid_def ids_def st_def mk_def)
  have w: "within (selectedId ?s) (map note_id [mk 3 ''c'', mk 2 ''b''])"
    by (simp add: st_def mk_def)
  have x: "notes ?s = notes ?r" "selectedId ?s = selectedId ?r"
    by simp_all
  have y: "selectedId (deleteNote ?r 2 (Ok ()) ?s) = Some 1"
    by (simp add: st_def mk_def Let_def)
  from selection_valid_preserved [OF v, where r = ?r and data = "[mk 3 ''c'', mk 2 ''b'']"
      and i = 2 and u = "()"] v w x y
  show ?thesis by blast
qed

text \<open>
  The claim as written fails: with note 1 shown and selected, a refresh that fetches
  note 2 alone replaces the collection and leaves the selection at 1.
\<close>

theorem refresh_leaves_selection_dangling:
  "selection_valid (st [mk 1 ''a''] (Some 1))
   \<and> notes (refresh (Ok [mk 2 ''b'']) (st [mk 1 ''a''] (Some 1))) = [mk 2 ''b'']
   \<and> selectedId (refresh (Ok [mk 2 ''b'']) (st [mk 1 ''a''] (Some 1))) = Some 1
   \<and> \<not> selection_valid (refresh (Ok [mk 2 ''b'']) (st [mk 1 ''a''] (Some 1)))"
  by (simp add: selection_valid_def ids_def notes_refresh_Ok selectedId_refresh_Ok st_def mk_def)

section \<open>Ids are pairwise distinct\<close>

text \<open>
  Claim C2, as amended. \<open>createNote\<close> draws its pending id as minus a random whole
  number below \<open>1e9\<close> and compares it with nothing, so the id is not guaranteed
  to be new. From a collection with pairwise distinct ids, the ids are still pairwise
  distinct after the optimistic insertion when the id drawn is not among them, which
  is certain when all of them are positive; after a successful create when also the
  server's id is not among them; after a refresh, or a failed create whose refetch
  succeeded, when the fetched ids are pairwise distinct; and always after a failed
  refresh, a save, a delete or an edit.
\<close>

theorem ids_distinct_preserved:
  assumes "ids_distinct s"
  shows "(distinct (map note_id data) \<longrightarrow> ids_distinct (refresh (Ok data) s))
    \<and> ids_distinct (refresh (Failed f) s)
    \<and> (tempId k \<notin> set (ids s) \<longrightarrow> ids_distinct (createNote_begin k t1 t2 s))
    \<and> ((\<forall>j \<in> set (ids s). 0 < j) \<longrightarrow> tempId k \<notin> set (ids s))
    \<and> (note_id created \<notin> set (ids s) \<longrightarrow> ids_distinct (create k t1 t2 (Ok created) res2 s))
    \<and> (distinct (map note_id data) \<longrightarrow> ids_distinct (create k t1 t2 (Failed f') (Ok data) s))
    \<and> (tempId k \<notin> set (ids s) \<longrightarrow> ids_distinct (create k t1 t2 (Failed f') (Failed g) s))
    \<and> ids_distinct (saveNote updated res s)
    \<and> ids_distinct (delete i res' s)
    \<and> ids_distinct (editTitle j v s)
    \<and> ids_distinct (editContent j v s)"
proof -
  have a: "distinct (map note_id data) \<longrightarrow> ids_distinct (refresh (Ok data) s)"
    by (simp add: ids_distinct_def ids_def notes_refresh_Ok)
  have b: "ids_distinct (refresh (Failed f) s)"
    using assms by (simp add: ids_distinct_def ids_def refresh_Failed)
  have c: "tempId k \<notin> set (ids s) \<longrightarrow> ids_distinct (createNote_begin k t1 t2 s)"
    using assms by (simp add: ids_distinct_def ids_def createNote_begin_def optimistic_def)
  have d: "(\<forall>j \<in> set (ids s). 0 < j) \<longrightarrow> tempId k \<notin> set (ids s)"
    by (auto simp: tempId_def)
  have e: "note_id created \<notin> set (ids s) \<longrightarrow> ids_distinct (create k t1 t2 (Ok created) res2 s)"
    using assms by (auto simp: ids_distinct_def ids_def notes_create_Ok distinct_filter_ids)
  have m: "distinct (map note_id data) \<longrightarrow> ids_distinct (create k t1 t2 (Failed f') (Ok data) s)"
    by (simp add: ids_distinct_def ids_def notes_create_Failed_Ok)
  have n: "tempId k \<notin> set (ids s) \<longrightarrow> ids_distinct (create k t1 t2 (Failed f') (Failed g) s)"
    using assms by (simp add: ids_distinct_def ids_def notes_create_Failed_Failed optimistic_def)
  have g: "ids_distinct (saveNote updated res s)"
    using assms by (simp add: ids_distinct_def ids_saveNote)
  have h: "ids_distinct (delete i res' s)"
  proof (cases res')
    case (Failed x)
    then show ?thesis using assms by (simp add: ids_distinct_def delete_Failed ids_def)
  next
    case (Ok u)
    then show ?thesis using assms by (simp add: ids_distinct_def ids_delete_Ok)
  qed
  have k: "ids_distinct (editTitle j v s)"
    using assms by (simp add: ids_distinct_def ids_editTitle)
  have l: "ids_distinct (editContent j v s)"
    using assms by (simp add: ids_distinct_def ids_editContent)
  from a b c d e m n g h k l show ?thesis by blast
qed

text \<open>
  Notes 1 and 2, the draw 5 and the server's new note 7; a refresh that fetches note 3.
\<close>

theorem ids_distinct_preserved_witness:
  "ids_distinct (st [mk 1 ''a'', mk 2 ''b''] None)
   \<and> distinct (map note_id [mk 3 ''c''])
   \<and> note_id (mk 7 ''n'') \<notin> set (ids (st [mk 1 ''a'', mk 2 ''b''] None))
   \<and> tempId 5 \<notin> set (ids (st [mk 1 ''a'', mk 2 ''b''] None))
   \<and> ids_distinct (refresh (Ok [mk 3 ''c'']) (st [mk 1 ''a'', mk 2 ''b''] None))
   \<and> ids_distinct (createNote_begin 5 ''t'' ''t'' (st [mk 1 ''a'', mk 2 ''b''] None))
   \<and> ids_distinct (create 5 ''t'' ''t'' (Ok (mk 7 ''n'')) (Ok []) (st [mk 1 ''a'', mk 2 ''b''] None))
   \<and> ids_distinct (create 5 ''t'' ''t'' (Failed (NotOk 500)) (Ok [mk 3 ''c'']) (st [mk 1 ''a'', mk 2 ''b''] None))
   \<and> ids_distinct (create 5 ''t'' ''t'' (Failed (NotOk 500)) (Failed (NotOk 503)) (st [mk 1 ''a'', mk 2 ''b''] None))"
proof -
  let ?s = "st [mk 1 ''a'', mk 2 ''b''] None"
  have v: "ids_distinct ?s"
    by (simp add: ids_distinct_def ids_def st_def mk_def)
  have w: "distinct (map note_id [mk 3 ''c''])"
    by simp
  have x: "note_id (mk 7 ''n'') \<notin> set (ids ?s)"
    by (simp add: ids_def st_def mk_def)
  have y: "\<forall>j \<in> set (ids ?s). 0 < j"
    by (simp add: ids_def st_def mk_def)
  from ids_distinct_preserved [OF v, where data = "[mk 3 ''c'']" and k = 5 and ?t1.0 = "''t''"
      and ?t2.0 = "''t''" and created = "mk 7 ''n''" and ?res2.0 = "Ok []"
      and f' = "NotOk 500" and g = "NotOk 503"] v w x y
  show ?thesis by blast
qed

text \<open>
  The claim as written fails. From the empty initial state, a create that drew 5 and
  failed, with its refetch failing too, leaves the pending note of id \<open>-5\<close> in the
  collection. A second create that draws 5 again inserts a second note of id \<open>-5\<close>.
\<close>

theorem pending_id_collides:
  "ids_distinct (create 5 ''t'' ''t'' (Failed (NotOk 500)) (Failed (NotOk 503)) initial)
   \<and> tempId 5 \<in> set (ids (create 5 ''t'' ''t'' (Failed (NotOk 500)) (Failed (NotOk 503)) initial))
   \<and> ids (createNote_begin 5 ''u'' ''u''
          (create 5 ''t'' ''t'' (Failed (NotOk 500)) (Failed (NotOk 503)) initial)) = [- 5, - 5]
   \<and> \<not> ids_distinct (createNote_begin 5 ''u'' ''u''
          (create 5 ''t'' ''t'' (Failed (NotOk 500)) (Failed (NotOk 503)) initial))"
  by (simp add: ids_distinct_def ids_def notes_create_Failed_Failed createNote_begin_def
      optimistic_def tempId_def initial_def)


section \<open>A successful create\<close>

text \<open>
  Claim C3, as amended. When the POST of \<open>createNote\<close> succeeds, the collection
  afterwards is the server's note followed by the former notes whose id is not the
  pending id, in their order, and the selection is the server's id. Hence the rest of
  the collection is preserved whole when the pending id drawn was not already the id of
  a note; exactly one note has the server's id when that id was not already the id of a
  note; and no note has the pending id when the server's id differs from it. The code
  checks none of the three conditions.
\<close>

theorem create_success_outcome:
  "notes (create k t1 t2 (Ok created) res2 s) =
      created # filter (\<lambda>n. note_id n \<noteq> tempId k) (notes s)
   \<and> selectedId (create k t1 t2 (Ok created) res2 s) = Some (note_id created)
   \<and> (tempId k \<notin> set (ids s) \<longrightarrow> notes (create k t1 t2 (Ok created) res2 s) = created # notes s)
   \<and> (note_id created \<notin> set (ids s) \<longrightarrow>
        length (filter (\<lambda>n. note_id n = note_id created)
                  (notes (create k t1 t2 (Ok created) res2 s))) = 1)
   \<and> (note_id created \<noteq> tempId k \<longrightarrow>
        tempId k \<notin> set (ids (create k t1 t2 (Ok created) res2 s)))"
proof -
  have a: "tempId k \<notin> set (ids s) \<longrightarrow> notes (create k t1 t2 (Ok created) res2 s) = created # notes s"
    by (simp add: notes_create_Ok ids_def filter_id_absent)
  have b: "note_id created \<notin> set (ids s) \<longrightarrow>
        length (filter (\<lambda>n. note_id n = note_id created)
                  (notes (create k t1 t2 (Ok created) res2 s))) = 1"
    by (simp add: notes_create_Ok ids_def filter_eq_absent)
  have c: "note_id created \<noteq> tempId k \<longrightarrow>
        tempId k \<notin> set (ids (create k t1 t2 (Ok created) res2 s))"
    by (auto simp: notes_create_Ok ids_def)
  from a b c show ?thesis
    by (simp add: notes_create_Ok selectedId_create_Ok)
qed

text \<open>
  Scenario C of the spec: from the single note 1, a create that the server answers with
  note 7 gives notes 7 and 1, with 7 selected.
\<close>

theorem create_success_outcome_witness:
  "tempId 5 \<notin> set (ids (st [mk 1 ''a''] (Some 1)))
   \<and> note_id (mk 7 ''n'') \<notin> set (ids (st [mk 1 ''a''] (Some 1)))
   \<and> note_id (mk 7 ''n'') \<noteq> tempId 5
   \<and> notes (create 5 ''t'' ''t'' (Ok (mk 7 ''n'')) (Ok []) (st [mk 1 ''a''] (Some 1)))
       = [mk 7 ''n'', mk 1 ''a'']
   \<and> selectedId (create 5 ''t'' ''t'' (Ok (mk 7 ''n'')) (Ok []) (st [mk 1 ''a''] (Some 1))) = Some 7
   \<and> length (filter (\<lambda>n. note_id n = 7)
        (notes (create 5 ''t'' ''t'' (Ok (mk 7 ''n'')) (Ok []) (st [mk 1 ''a''] (Some 1))))) = 1
   \<and> tempId 5 \<notin> set (ids (create 5 ''t'' ''t'' (Ok (mk 7 ''n'')) (Ok []) (st [mk 1 ''a''] (Some 1))))"
proof -
  have h1: "tempId 5 \<notin> set (ids (st [mk 1 ''a''] (Some 1)))"
    by (simp add: tempId_def ids_def st_def mk_def)
  have h2: "note_id (mk 7 ''n'') \<notin> set (ids (st [mk 1 ''a''] (Some 1)))"
    by (simp add: ids_def st_def mk_def)
  have h3: "note_id (mk 7 ''n'') \<noteq> tempId 5"
    by (simp add: tempId_def mk_def)
  from create_success_outcome [where k = 5 and s = "st [mk 1 ''a''] (Some 1)"
      and created = "mk 7 ''n''" and ?t1.0 = "''t''" and ?t2.0 = "''t''" and ?res2.0 = "Ok []"]
    h1 h2 h3
  show ?thesis by (simp add: st_def mk_def tempId_def)
qed

text \<open>
  The claim as written fails in each of its three parts on the notes. First, a pending
  note of id \<open>-5\<close> left by a failed create (its refetch having failed too) is dropped
  from the rest of the collection when a later create draws 5 again and succeeds.
  Second, when the server answers with id 7 while a note 7 is on display, two notes
  have the server's id. Third, when the draw is 0 and the server answers with id 0, a
  note of the pending id remains.
\<close>

theorem create_success_collisions:
  "notes (create 5 ''t'' ''t'' (Failed (NotOk 500)) (Failed (NotOk 503)) initial)
     = [optimistic 5 ''t'' ''t'']
   \<and> notes (create 5 ''u'' ''u'' (Ok (mk 7 ''n'')) (Ok [])
       (create 5 ''t'' ''t'' (Failed (NotOk 500)) (Failed (NotOk 503)) initial))
     = [mk 7 ''n'']
   \<and> length (filter (\<lambda>n. note_id n = 7)
        (notes (create 5 ''t'' ''t'' (Ok (mk 7 ''n'')) (Ok []) (st [mk 7 ''o''] (Some 7))))) = 2
   \<and> tempId 0 \<in> set (ids (create 0 ''t'' ''t'' (Ok (mk 0 ''n'')) (Ok []) initial))"
  by (simp add: notes_create_Ok notes_create_Failed_Failed ids_def optimistic_def tempId_def
      st_def mk_def initial_def)

section \<open>A failed create\<close>

text \<open>
  Claim C4, as amended. When the POST of \<open>createNote\<close> fails, the code does not
  remove the pending note: the collection is untouched at that point and a refetch is
  started (the code's rollback is the refetch). If the refetch succeeds, the collection
  afterwards is exactly the fetched one, the same a refresh with that reply gives from
  any state, so no note of the pending id remains unless the server itself sent one. If
  the refetch fails, the collection is the former one with the pending note still at
  its head.
\<close>

theorem create_failure_rollback:
  "notes (createNote_settle k (Failed f) s1) = notes s1
   \<and> notes (create k t1 t2 (Failed f) (Ok data) s) = data
   \<and> notes (create k t1 t2 (Failed f) (Ok data) s) = notes (refresh (Ok data) s')
   \<and> (tempId k \<notin> set (map note_id data) \<longrightarrow>
        tempId k \<notin> set (ids (create k t1 t2 (Failed f) (Ok data) s)))
   \<and> notes (create k t1 t2 (Failed f) (Failed g) s) = optimistic k t1 t2 # notes s"
  by (simp add: notes_create_Failed_Ok notes_create_Failed_Failed notes_refresh_Ok ids_def
      fetchNotes_begin_def)

text \<open>A create that drew 5 and failed, its refetch bringing note 1.\<close>

theorem create_failure_rollback_witness:
  "tempId 5 \<notin> set (map note_id [mk 1 ''a''])
   \<and> notes (create 5 ''t'' ''t'' (Failed (NotOk 500)) (Ok [mk 1 ''a'']) initial) = [mk 1 ''a'']
   \<and> tempId 5 \<notin> set (ids (create 5 ''t'' ''t'' (Failed (NotOk 500)) (Ok [mk 1 ''a'']) initial))"
proof -
  have h: "tempId 5 \<notin> set (map note_id [mk 1 ''a''])"
    by (simp add: tempId_def mk_def)
  from create_failure_rollback [where k = 5 and data = "[mk 1 ''a'']" and s = initial
      and f = "NotOk 500" and ?t1.0 = "''t''" and ?t2.0 = "''t''"] h
  show ?thesis by simp
qed

text \<open>
  The claim as written fails: from the empty initial state, after a failed create and
  a failed refetch the pending note is the one note of the collection, whereas a
  removal of the pending note followed by a refresh, failed or not, would leave none
  of that id.
\<close>

theorem create_failure_pending_stays:
  "notes (createNote_settle 5 (Failed (NotOk 500)) (createNote_begin 5 ''t'' ''t'' initial))
     = [optimistic 5 ''t'' ''t'']
   \<and> notes (create 5 ''t'' ''t'' (Failed (NotOk 500)) (Failed (NotOk 503)) initial)
     = [optimistic 5 ''t'' ''t'']
   \<and> tempId 5 \<in> set (ids (create 5 ''t'' ''t'' (Failed (NotOk 500)) (Failed (NotOk 503)) initial))"
  by (simp add: notes_create_Failed_Failed ids_def optimistic_def initial_def
      createNote_begin_def fetchNotes_begin_def)

section \<open>The error on display after a failed create\<close>

text \<open>
  Claim C5, at the input where the code departs from it. A create is issued from the
  empty initial state; the POST fails with status 500 and the refetch succeeds with no
  notes. When the POST has settled the error is the create failure's message; when the
  refetch has settled the error is none, cleared by the success path of \<open>fetchNotes\<close>.
\<close>

theorem create_failure_error_cleared:
  "error (createNote_settle 5 (Failed (NotOk 500)) (createNote_begin 5 ''t'' ''t'' initial))
     = Some ''Failed to create note (500)''
   \<and> error (create 5 ''t'' ''t'' (Failed (NotOk 500)) (Ok []) initial) = None"
  by (simp add: ops digit_char_def show_nat.simps)

section \<open>The selection after a successful refresh\<close>

text \<open>
  Claim C8, at the input where the code departs from it. Note 0 is shown and selected;
  a refresh fetches notes 5 and 0. The selection exists and its note is still there,
  yet the test \<open>!selectedId\<close> holds of the number 0 as it does of \<open>null\<close>, and the
  selection moves to note 5.
\<close>

theorem refresh_reselects_from_zero:
  "selectedId (st [mk 0 ''a''] (Some 0)) = Some 0
   \<and> notes (refresh (Ok [mk 5 ''b'', mk 0 ''a'']) (st [mk 0 ''a''] (Some 0)))
       = [mk 5 ''b'', mk 0 ''a'']
   \<and> error (refresh (Ok [mk 5 ''b'', mk 0 ''a'']) (st [mk 0 ''a''] (Some 0))) = None
   \<and> selectedId (refresh (Ok [mk 5 ''b'', mk 0 ''a'']) (st [mk 0 ''a''] (Some 0))) = Some 5"
  by (simp add: notes_refresh_Ok error_refresh_Ok selectedId_refresh_Ok st_def mk_def)


end
